theory Spec2Isabelle
  imports Main
begin

section \<open>The star-registry ledger of \<^verbatim>\<open>src/blockchain.js\<close>\<close>

text \<open>
  The class \<^verbatim>\<open>Blockchain\<close> keeps an array \<^verbatim>\<open>this.chain\<close> of blocks and a number
  \<^verbatim>\<open>this.height\<close>. Its methods return promises; a promise that resolves with \<open>v\<close> is
  modelled by \<open>Inr v\<close> and one that rejects with \<open>e\<close> by \<open>Inl e\<close>. A method that changes
  the object returns the new state next to its result. The calls are modelled one after
  the other: each call has settled before the next one starts.

  What the class takes from elsewhere is a parameter of the model:
  \<^item> \<open>hasher\<close> is \<^verbatim>\<open>SHA256(JSON.stringify(block)).toString()\<close>, applied to the block
    object as it is at the moment of the call (its \<^verbatim>\<open>hash\<close> field included);
  \<^item> \<open>validate\<close> is the method \<^verbatim>\<open>validate()\<close> of a block: \<open>Inr state\<close> when its promise
    resolves with the boolean \<open>state\<close>, \<open>Inl err\<close> when it rejects;
  \<^item> \<open>getBData\<close> is the method \<^verbatim>\<open>getBData()\<close> of a block, likewise;
  \<^item> \<open>encode\<close> is the encoding of the data that the constructor of a block stores in
    \<^verbatim>\<open>body\<close>;
  \<^item> \<open>verify\<close> is \<^verbatim>\<open>bitcoinMessage.verify\<close>;
  \<^item> a clock reading is the string \<^verbatim>\<open>new Date().getTime().toString().slice(0,-3)\<close>,
    the decimal digits of the seconds since the epoch.
\<close>

subsection \<open>Blocks\<close>

text \<open>
  The fields of a block as \<^verbatim>\<open>blockchain.js\<close> reads and writes them. \<^verbatim>\<open>hash\<close> and
  \<^verbatim>\<open>previousBlockHash\<close> hold a string or \<^verbatim>\<open>null\<close> (\<open>None\<close>); \<^verbatim>\<open>time\<close> is assigned the
  clock reading, a string.
\<close>

record block =
  hash :: "string option"
  height :: int
  body :: string
  time :: string
  previousBlockHash :: "string option"

text \<open>The objects handed to the constructor of a block.\<close>

datatype data =
  GenesisData                     \<comment> \<open>\<^verbatim>\<open>{data: 'Genesis Block'}\<close>\<close>
| StarData string string string   \<comment> \<open>\<^verbatim>\<open>{message, signature, star}\<close>\<close>

text \<open>
  Modelled from the spec: the constructor of \<^verbatim>\<open>Block\<close> (\<^verbatim>\<open>block.js\<close> is not among the
  sources). A new record has position 0, no digest yet, the sentinel as previous digest
  and the payload it was given; its time is written by the append before anything reads
  it.
\<close>

definition Block :: "string \<Rightarrow> block" where
  "Block payload =
     \<lparr>hash = None, height = 0, body = payload, time = ''0'', previousBlockHash = None\<rparr>"

subsection \<open>The ledger\<close>

record blockchain =
  chain :: "block list"
  chainHeight :: int   \<comment> \<open>\<^verbatim>\<open>this.height\<close>\<close>

datatype rejection =
  RejectedWith string   \<comment> \<open>\<^verbatim>\<open>reject("...")\<close>\<close>
| RejectedWithBlock     \<comment> \<open>\<^verbatim>\<open>reject(block)\<close>, the falsy argument itself\<close>

text \<open>An entry of the error log of \<^verbatim>\<open>validateChain\<close>.\<close>

datatype logEntry =
  BlockError "string option" string   \<comment> \<open>\<^verbatim>\<open>{"Block's Hash": block.hash, "Error": ...}\<close>\<close>
| ChainError string                   \<comment> \<open>\<^verbatim>\<open>{"Error": ...}\<close>\<close>

text \<open>
  \<^verbatim>\<open>ToBoolean\<close> of an object is true: of a block, and of an array, the empty one
  included.
\<close>

definition truthy :: "'a \<Rightarrow> bool" where
  "truthy obj = True"

text \<open>A value inside a template literal: \<^verbatim>\<open>null\<close> prints as the word.\<close>

definition toString :: "string option \<Rightarrow> string" where
  "toString v = (case v of None \<Rightarrow> ''null'' | Some s \<Rightarrow> s)"

definition comparePreviousBlockHash :: "block \<Rightarrow> string option \<Rightarrow> bool" where
  "comparePreviousBlockHash b previousBlockHash' \<longleftrightarrow> previousBlockHash b = previousBlockHash'"

subsection \<open>validateChain\<close>

text \<open>
  The loop of \<^verbatim>\<open>validateChain\<close> does two things for each block. It registers callbacks
  on the promise of \<^verbatim>\<open>block.validate()\<close>; they push onto \<^verbatim>\<open>errorLog\<close> when they run,
  which is after the loop. And it compares the link and pushes at once. The array the
  promise resolves with is the one the callbacks push onto, and the callbacks are queued
  before any reader of that promise can be: the reader sees the entries of the loop
  followed by the entries of the callbacks. (This takes \<^verbatim>\<open>validate()\<close> to settle without
  waiting for anything else, as a method that only computes on its block does.)
\<close>

record validation =
  errorLog :: "logEntry list"
  previousHash :: "string option"
  pending :: "logEntry list"   \<comment> \<open>what the queued callbacks will push\<close>

definition validateCallback :: "(block \<Rightarrow> string + bool) \<Rightarrow> block \<Rightarrow> logEntry list" where
  "validateCallback validate b =
     (case validate b of
        Inr state \<Rightarrow>
          if \<not> state then [BlockError (hash b) (''Block'' @ [CHR 0x27] @ ''s Body has been altered.'')]
          else []
      | Inl err \<Rightarrow> [BlockError (hash b) (''Block Validation Failed ('' @ err @ '')'')])"

definition hashNotMatching :: "block \<Rightarrow> string option \<Rightarrow> logEntry" where
  "hashNotMatching b prev =
     BlockError (hash b)
       (''Hash Not Matching: Previous Hash: '' @ toString prev @ '' '' @ [CHR 0x0A]
          @ '' Block Hash '' @ toString (hash b))"

fun forEachValidate :: "(block \<Rightarrow> string + bool) \<Rightarrow> block list \<Rightarrow> validation \<Rightarrow> validation" where
  "forEachValidate validate [] v = v"
| "forEachValidate validate (b # bs) v =
     forEachValidate validate bs
       \<lparr>errorLog =
          errorLog v @
            (if \<not> comparePreviousBlockHash b (previousHash v)
             then [hashNotMatching b (previousHash v)] else []),
        previousHash = hash b,
        pending = pending v @ validateCallback validate b\<rparr>"

definition validateChain :: "(block \<Rightarrow> string + bool) \<Rightarrow> blockchain \<Rightarrow> logEntry list" where
  "validateChain validate s =
     (if length (chain s) > 0 then
        (let v = forEachValidate validate (chain s)
                   \<lparr>errorLog = [], previousHash = None, pending = []\<rparr>
         in errorLog v @ pending v)
      else [ChainError ''No Block Present on the Chain.''])"

subsection \<open>Appending\<close>

definition appendBlockOntoTheChain :: "blockchain \<Rightarrow> block \<Rightarrow> block \<times> blockchain" where
  "appendBlockOntoTheChain s b =
     (let chain' = chain s @ [b]
      in (b, \<lparr>chain = chain', chainHeight = int (length chain')\<rparr>))"

definition appendGenesisBlock :: "blockchain \<Rightarrow> block \<Rightarrow> block \<times> blockchain" where
  "appendGenesisBlock s b = appendBlockOntoTheChain s b"

text \<open>
  \<^verbatim>\<open>_addBlock\<close>. The argument is \<open>None\<close> when it is falsy (\<^verbatim>\<open>null\<close>, \<^verbatim>\<open>undefined\<close>).
  The order of the assignments is the source's: time, then hash, then, on a chain that is
  not empty, height and previous hash.
\<close>

definition addBlock ::
  "(block \<Rightarrow> string) \<Rightarrow> (block \<Rightarrow> string + bool) \<Rightarrow> string \<Rightarrow> blockchain \<Rightarrow> block option
     \<Rightarrow> (rejection + block) \<times> blockchain" where
  "addBlock hasher validate now s block =
     (case block of
        None \<Rightarrow> (Inl RejectedWithBlock, s)
      | Some b0 \<Rightarrow>
          (let b1 = b0\<lparr>time := now\<rparr>;
               b2 = b1\<lparr>hash := Some (hasher b1)\<rparr>
           in if length (chain s) > 0 then
                (let previousBlock = last (chain s);
                     b3 = b2\<lparr>height := height previousBlock + 1\<rparr>;
                     b4 = b3\<lparr>previousBlockHash := hash previousBlock\<rparr>;
                     state = validateChain validate s
                 in if truthy state then
                      (case appendBlockOntoTheChain s b4 of (b', s') \<Rightarrow> (Inr b', s'))
                    else (Inl (RejectedWith ''Chain Invalid''), s))
              else
                (case appendGenesisBlock s b2 of
                   (b', s') \<Rightarrow>
                     if truthy b' then (Inr b2, s')
                     else (Inl (RejectedWith ''Failed to Append Genesis Block''), s'))))"

text \<open>
  What \<^verbatim>\<open>_addBlock\<close> does to the blocks, in the order in which it does it: the calls of
  \<^verbatim>\<open>block.validate()\<close> that the loop of \<^verbatim>\<open>validateChain\<close> makes, one for each block of
  the chain, and the \<^verbatim>\<open>this.chain.push(block)\<close> of \<^verbatim>\<open>_appendBlockOntoTheChain\<close>. On a chain
  that is not empty the push is in the callback on the promise of \<^verbatim>\<open>validateChain\<close>, so
  it comes after the loop.
\<close>

datatype event =
  ValidateCalled block   \<comment> \<open>\<^verbatim>\<open>block.validate()\<close>\<close>
| Pushed block           \<comment> \<open>\<^verbatim>\<open>this.chain.push(block)\<close>\<close>

fun forEachValidateEvents :: "block list \<Rightarrow> event list \<Rightarrow> event list" where
  "forEachValidateEvents [] events = events"
| "forEachValidateEvents (b # bs) events = forEachValidateEvents bs (events @ [ValidateCalled b])"

definition validateChainEvents :: "blockchain \<Rightarrow> event list" where
  "validateChainEvents s =
     (if length (chain s) > 0 then forEachValidateEvents (chain s) [] else [])"

definition addBlockEvents ::
  "(block \<Rightarrow> string) \<Rightarrow> (block \<Rightarrow> string + bool) \<Rightarrow> string \<Rightarrow> blockchain \<Rightarrow> block option
     \<Rightarrow> event list" where
  "addBlockEvents hasher validate now s block =
     (case block of
        None \<Rightarrow> []
      | Some b0 \<Rightarrow>
          (let b1 = b0\<lparr>time := now\<rparr>;
               b2 = b1\<lparr>hash := Some (hasher b1)\<rparr>
           in if length (chain s) > 0 then
                (let previousBlock = last (chain s);
                     b3 = b2\<lparr>height := height previousBlock + 1\<rparr>;
                     b4 = b3\<lparr>previousBlockHash := hash previousBlock\<rparr>;
                     state = validateChain validate s
                 in validateChainEvents s @ (if truthy state then [Pushed b4] else []))
              else [Pushed b2]))"

definition initializeChain ::
  "(block \<Rightarrow> string) \<Rightarrow> (block \<Rightarrow> string + bool) \<Rightarrow> (data \<Rightarrow> string) \<Rightarrow> string \<Rightarrow> blockchain
     \<Rightarrow> blockchain" where
  "initializeChain hasher validate encode now s =
     (if chainHeight s = - 1 then
        snd (addBlock hasher validate now s (Some (Block (encode GenesisData))))
      else s)"

text \<open>The constructor of the class.\<close>

definition Blockchain ::
  "(block \<Rightarrow> string) \<Rightarrow> (block \<Rightarrow> string + bool) \<Rightarrow> (data \<Rightarrow> string) \<Rightarrow> string \<Rightarrow> blockchain" where
  "Blockchain hasher validate encode now =
     initializeChain hasher validate encode now \<lparr>chain = [], chainHeight = - 1\<rparr>"

definition getChainHeight :: "blockchain \<Rightarrow> int" where
  "getChainHeight s = chainHeight s"

subsection \<open>The ownership challenge\<close>

definition requestMessageOwnershipVerification :: "string \<Rightarrow> string \<Rightarrow> string" where
  "requestMessageOwnershipVerification address now = address @ '':'' @ now @ '':starRegistry''"

text \<open>\<^verbatim>\<open>String.prototype.split\<close> with a one-character separator.\<close>

fun split :: "char \<Rightarrow> string \<Rightarrow> string list" where
  "split c [] = [[]]"
| "split c (x # xs) =
     (if x = c then [] # split c xs
      else (case split c xs of w # ws \<Rightarrow> (x # w) # ws | [] \<Rightarrow> [[x]]))"

text \<open>An array read \<^verbatim>\<open>xs[i]\<close>: \<^verbatim>\<open>undefined\<close> (\<open>None\<close>) outside the array.\<close>

definition at :: "'a list \<Rightarrow> nat \<Rightarrow> 'a option" where
  "at xs i = (if i < length xs then Some (xs ! i) else None)"

text \<open>
  \<^verbatim>\<open>parseInt\<close> of one argument: leading white space (of the ASCII characters), a sign,
  the prefix \<^verbatim>\<open>0x\<close> for radix 16, then the longest run of digits; \<^verbatim>\<open>NaN\<close> (\<open>None\<close>) when
  there is no digit, as for \<^verbatim>\<open>undefined\<close>. The value is the exact integer (the number
  type holds it exactly below \<open>2^53\<close>).
\<close>

definition isWhiteSpace :: "char \<Rightarrow> bool" where
  "isWhiteSpace c \<longleftrightarrow> c \<in> set [CHR 0x20, CHR 0x09, CHR 0x0A, CHR 0x0B, CHR 0x0C, CHR 0x0D]"

definition digitValue :: "char \<Rightarrow> nat option" where
  "digitValue c =
     (let n = (of_char c :: nat)
      in if 48 \<le> n \<and> n \<le> 57 then Some (n - 48)
         else if 97 \<le> n \<and> n \<le> 122 then Some (n - 87)
         else if 65 \<le> n \<and> n \<le> 90 then Some (n - 55)
         else None)"

definition isDigit :: "nat \<Rightarrow> char \<Rightarrow> bool" where
  "isDigit radix c = (case digitValue c of None \<Rightarrow> False | Some d \<Rightarrow> d < radix)"

definition digitsValue :: "nat \<Rightarrow> string \<Rightarrow> int" where
  "digitsValue radix ds = foldl (\<lambda>acc c. acc * int radix + int (the (digitValue c))) 0 ds"

definition parseInt :: "string option \<Rightarrow> int option" where
  "parseInt arg =
     (case arg of
        None \<Rightarrow> None
      | Some str \<Rightarrow>
          (let s1 = dropWhile isWhiteSpace str;
               sign = (if take 1 s1 = ''-'' then - 1 else 1 :: int);
               s2 = (if take 1 s1 = ''-'' \<or> take 1 s1 = ''+'' then drop 1 s1 else s1);
               hex = (take 2 s2 = ''0x'' \<or> take 2 s2 = ''0X'');
               radix = (if hex then 16 else 10 :: nat);
               s3 = (if hex then drop 2 s2 else s2);
               ds = takeWhile (isDigit radix) s3
           in if ds = [] then None else Some (sign * digitsValue radix ds)))"

text \<open>
  \<^verbatim>\<open>new Date(n).getMinutes()\<close>: the argument is a time value in milliseconds; the result
  is the minute of the hour, in local time, of that instant, and \<^verbatim>\<open>NaN\<close> (\<open>None\<close>) for
  \<^verbatim>\<open>NaN\<close> or a value out of the range of dates. \<open>tza\<close> is the offset of local time from
  UTC in milliseconds.
\<close>

definition getMinutes :: "int \<Rightarrow> int option \<Rightarrow> int option" where
  "getMinutes tza n =
     (case n of
        None \<Rightarrow> None
      | Some t \<Rightarrow>
          if \<bar>t\<bar> > 8640000000000000 then None
          else Some (((t + tza) div 60000) mod 60))"

text \<open>Subtraction and \<^verbatim>\<open><\<close> on numbers that may be \<^verbatim>\<open>NaN\<close>.\<close>

definition minus' :: "int option \<Rightarrow> int option \<Rightarrow> int option" where
  "minus' a b = (case (a, b) of (Some x, Some y) \<Rightarrow> Some (x - y) | _ \<Rightarrow> None)"

definition less' :: "int option \<Rightarrow> int \<Rightarrow> bool" where
  "less' a k = (case a of None \<Rightarrow> False | Some x \<Rightarrow> x < k)"

text \<open>
  The block object after the assignments of \<^verbatim>\<open>_addBlock\<close>, whether or not it is
  pushed then.
\<close>

definition written :: "(block \<Rightarrow> string) \<Rightarrow> string \<Rightarrow> blockchain \<Rightarrow> block \<Rightarrow> block" where
  "written hasher now s b0 =
     (let b1 = b0\<lparr>time := now\<rparr>;
          b2 = b1\<lparr>hash := Some (hasher b1)\<rparr>
      in if length (chain s) > 0 then
           (let previousBlock = last (chain s);
                b3 = b2\<lparr>height := height previousBlock + 1\<rparr>
            in b3\<lparr>previousBlockHash := hash previousBlock\<rparr>)
         else b2)"

text \<open>
  \<^verbatim>\<open>submitStar\<close>. \<open>now\<close> is the clock reading of \<^verbatim>\<open>submitStar\<close> and \<open>now'\<close> the one of
  the \<^verbatim>\<open>_addBlock\<close> it calls. The promise resolves with the new block object, which
  \<^verbatim>\<open>_addBlock\<close> has written to, whatever \<^verbatim>\<open>_addBlock\<close> settles with.
\<close>

definition submitStar ::
  "(block \<Rightarrow> string) \<Rightarrow> (block \<Rightarrow> string + bool) \<Rightarrow> (data \<Rightarrow> string)
     \<Rightarrow> (string \<Rightarrow> string \<Rightarrow> string \<Rightarrow> bool) \<Rightarrow> int \<Rightarrow> string \<Rightarrow> string \<Rightarrow> blockchain
     \<Rightarrow> string \<Rightarrow> string \<Rightarrow> string \<Rightarrow> string \<Rightarrow> (string + block) \<times> blockchain" where
  "submitStar hasher validate encode verify tza now now' s address message signature star =
     (let messageTime = parseInt (at (split CHR '':'' message) 1);
          currentTime = parseInt (Some now)
      in if less' (getMinutes tza (minus' currentTime messageTime)) 5
            \<and> verify message address signature
         then
           (let newBlock = Block (encode (StarData message signature star))
            in case addBlock hasher validate now' s (Some newBlock) of
                 (Inr b', s') \<Rightarrow> (Inr b', s')
               | (Inl e, s') \<Rightarrow> (Inr (written hasher now' s newBlock), s'))
         else (Inl ''Failed to Submit Star'', s))"

subsection \<open>Queries\<close>

definition getBlockByHash :: "blockchain \<Rightarrow> string \<Rightarrow> string + block" where
  "getBlockByHash s h =
     (case find (\<lambda>b. hash b = Some h) (chain s) of
        Some foundBlock \<Rightarrow> Inr foundBlock
      | None \<Rightarrow> Inl ''Block Not Found.'')"

text \<open>The promise of \<^verbatim>\<open>getBlockByHeight\<close> resolves with a block or with \<^verbatim>\<open>null\<close>.\<close>

definition getBlockByHeight :: "blockchain \<Rightarrow> int \<Rightarrow> string + block option" where
  "getBlockByHeight s h =
     (case at (filter (\<lambda>p. height p = h) (chain s)) 0 of
        Some b \<Rightarrow> Inr (Some b)
      | None \<Rightarrow> Inr None)"

text \<open>
  What \<^verbatim>\<open>getBData()\<close> resolves with: \<^verbatim>\<open>null\<close> or \<^verbatim>\<open>undefined\<close>, or an object, of which
  the model keeps \<^verbatim>\<open>message\<close> (\<open>None\<close> when it is not a string) and \<^verbatim>\<open>star\<close> (\<open>None\<close> when
  it is \<^verbatim>\<open>undefined\<close>).
\<close>

datatype bdata = Nullish | Decoded "string option" "string option"

record starEntry =
  owner :: string
  star :: "string option"

text \<open>
  The callbacks of \<^verbatim>\<open>getStarsByWalletAddress\<close> on the promise of \<^verbatim>\<open>getBData()\<close>. On
  \<^verbatim>\<open>null\<close> the optional chain gives \<^verbatim>\<open>undefined\<close>, which is not the address. On an object
  without a string \<^verbatim>\<open>message\<close> the call of \<^verbatim>\<open>split\<close> throws; the \<^verbatim>\<open>catch\<close> then calls
  \<^verbatim>\<open>reject\<close> on a promise that \<^verbatim>\<open>resolve(stars)\<close> has settled already, which does
  nothing. A rejection of \<^verbatim>\<open>getBData()\<close> is logged.
\<close>

definition starsCallback :: "(block \<Rightarrow> string + bdata) \<Rightarrow> string \<Rightarrow> block \<Rightarrow> starEntry list" where
  "starsCallback getBData address b =
     (case getBData b of
        Inl error \<Rightarrow> []
      | Inr Nullish \<Rightarrow> []
      | Inr (Decoded None st) \<Rightarrow> []
      | Inr (Decoded (Some message) st) \<Rightarrow>
          if at (split CHR '':'' message) 0 = Some address
          then [\<lparr>owner = address, star = st\<rparr>] else [])"

text \<open>
  As in \<^verbatim>\<open>validateChain\<close>, the array the promise resolves with is filled by callbacks
  that are queued, in the order of the chain, before any reader of the promise.
\<close>

fun forEachStars ::
  "(block \<Rightarrow> string + bdata) \<Rightarrow> string \<Rightarrow> block list \<Rightarrow> starEntry list \<Rightarrow> starEntry list" where
  "forEachStars getBData address [] stars = stars"
| "forEachStars getBData address (b # bs) stars =
     forEachStars getBData address bs (stars @ starsCallback getBData address b)"

definition getStarsByWalletAddress ::
  "(block \<Rightarrow> string + bdata) \<Rightarrow> blockchain \<Rightarrow> string \<Rightarrow> string + starEntry list" where
  "getStarsByWalletAddress getBData s address =
     (if length (chain s) > 0 then Inr (forEachStars getBData address (chain s) [])
      else Inl ''Failed.'')"

subsection \<open>Sequences of calls\<close>

datatype call =
  AddBlock string "block option"   \<comment> \<open>\<^verbatim>\<open>_addBlock(block)\<close> at a clock reading\<close>
| InitializeChain string           \<comment> \<open>\<^verbatim>\<open>initializeChain()\<close> at a clock reading\<close>

fun perform ::
  "(block \<Rightarrow> string) \<Rightarrow> (block \<Rightarrow> string + bool) \<Rightarrow> (data \<Rightarrow> string) \<Rightarrow> blockchain \<Rightarrow> call
     \<Rightarrow> blockchain" where
  "perform hasher validate encode s (AddBlock now block) =
     snd (addBlock hasher validate now s block)"
| "perform hasher validate encode s (InitializeChain now) =
     initializeChain hasher validate encode now s"

definition run ::
  "(block \<Rightarrow> string) \<Rightarrow> (block \<Rightarrow> string + bool) \<Rightarrow> (data \<Rightarrow> string) \<Rightarrow> blockchain \<Rightarrow> call list
     \<Rightarrow> blockchain" where
  "run hasher validate encode s calls = foldl (perform hasher validate encode) s calls"

section \<open>Predicates on ledgers\<close>

text \<open>
  The stored digest of a record is the hasher of the record with its digest field
  cleared, that is, of its final position, time, previous digest and payload.
\<close>

definition digestCovers :: "(block \<Rightarrow> string) \<Rightarrow> block \<Rightarrow> bool" where
  "digestCovers hasher b \<longleftrightarrow> hash b = Some (hasher (b\<lparr>hash := None\<rparr>))"

text \<open>
  What the appends keep true of a ledger: it is not empty, \<^verbatim>\<open>this.height\<close> is its
  length, the record at index \<open>i\<close> has position \<open>i\<close> and a digest, the first record has the
  sentinel as previous digest and every later one the digest of the record before it.
\<close>

definition wellFormed :: "blockchain \<Rightarrow> bool" where
  "wellFormed s \<longleftrightarrow>
     chain s \<noteq> [] \<and>
     chainHeight s = int (length (chain s)) \<and>
     (\<forall>i. i < length (chain s) \<longrightarrow> height (chain s ! i) = int i \<and> hash (chain s ! i) \<noteq> None) \<and>
     previousBlockHash (chain s ! 0) = None \<and>
     (\<forall>i. 0 < i \<and> i < length (chain s) \<longrightarrow>
        previousBlockHash (chain s ! i) = hash (chain s ! (i - 1)))"

text \<open>
  The address that a block belongs to: the part before the first colon of the message
  that \<^verbatim>\<open>getBData()\<close> decodes from it, when there is one; and the star decoded from it.
\<close>

definition decodedOwner :: "(block \<Rightarrow> string + bdata) \<Rightarrow> block \<Rightarrow> string option" where
  "decodedOwner getBData b =
     (case getBData b of
        Inr (Decoded (Some message) st) \<Rightarrow> Some (takeWhile (\<lambda>c. c \<noteq> CHR '':'') message)
      | _ \<Rightarrow> None)"

definition decodedStar :: "(block \<Rightarrow> string + bdata) \<Rightarrow> block \<Rightarrow> string option" where
  "decodedStar getBData b = (case getBData b of Inr (Decoded m st) \<Rightarrow> st | _ \<Rightarrow> None)"

text \<open>
  The link findings of a chain, record by record: \<open>p\<close> is the digest of the record
  before (the sentinel before the first).
\<close>

fun linkLog :: "string option \<Rightarrow> block list \<Rightarrow> logEntry list" where
  "linkLog p [] = []"
| "linkLog p (b # bs) =
     (if previousBlockHash b \<noteq> p then [hashNotMatching b p] else []) @ linkLog (hash b) bs"

section \<open>An instance of the parameters\<close>

text \<open>
  A hasher that reads the position, the time and the payload of a block, for the
  concrete ledgers below.
\<close>

definition demoHasher :: "block \<Rightarrow> string" where
  "demoHasher b = replicate (nat (height b)) (CHR ''i'') @ '':'' @ time b @ '':'' @ body b"

text \<open>
  Modelled from the spec: the method \<^verbatim>\<open>validate\<close> of a block (\<^verbatim>\<open>block.js\<close> is not among
  the sources). It recomputes the digest from the fields of the record, the digest
  excluded, and resolves with whether the stored digest is that one.
\<close>

definition Block_validate :: "(block \<Rightarrow> string) \<Rightarrow> block \<Rightarrow> string + bool" where
  "Block_validate hasher b = Inr (hash b = Some (hasher (b\<lparr>hash := None\<rparr>)))"

definition demoEncode :: "data \<Rightarrow> string" where
  "demoEncode d = (case d of GenesisData \<Rightarrow> ''G'' | StarData m sg st \<Rightarrow> m @ ''|'' @ st)"

definition demoLedger :: blockchain where
  "demoLedger = Blockchain demoHasher (Block_validate demoHasher) demoEncode ''1000''"

text \<open>A ledger whose only record had its payload overwritten.\<close>

definition tamperedLedger :: blockchain where
  "tamperedLedger =
     \<lparr>chain = [\<lparr>hash = Some '':1000:G'', height = 0, body = ''X'', time = ''1000'',
                previousBlockHash = None\<rparr>],
      chainHeight = 1\<rparr>"

text \<open>A ledger with a foreign first record and the tail of \<open>demoLedger\<close>.\<close>

definition forkedLedger :: blockchain where
  "forkedLedger =
     \<lparr>chain = [\<lparr>hash = Some ''bad'', height = 7, body = ''X'', time = ''5'',
                previousBlockHash = Some ''zz''\<rparr>,
               \<lparr>hash = Some '':1000:G'', height = 0, body = ''G'', time = ''1000'',
                previousBlockHash = None\<rparr>],
      chainHeight = 2\<rparr>"

definition demoCalls :: "call list" where
  "demoCalls = [AddBlock ''1001'' (Some (Block ''S'')), AddBlock ''1002'' None,
                InitializeChain ''1003'', AddBlock ''1004'' (Some (Block ''T''))]"

text \<open>
  A decoder for the payloads of \<open>demoEncode\<close>. It rejects on the genesis payload, gives
  \<^verbatim>\<open>null\<close> on one payload and an object without a message on any other that is not of
  the form \<^verbatim>\<open>message|star\<close>.
\<close>

definition demoGetBData :: "block \<Rightarrow> string + bdata" where
  "demoGetBData b =
     (if body b = ''G'' then Inl ''Genesis Block''
      else if body b = ''null'' then Inr Nullish
      else if CHR ''|'' \<notin> set (body b) then Inr (Decoded None None)
      else Inr (Decoded (Some (takeWhile (\<lambda>c. c \<noteq> CHR ''|'') (body b)))
                        (Some (drop 1 (dropWhile (\<lambda>c. c \<noteq> CHR ''|'') (body b))))))"

text \<open>Stars of the addresses A, A and B, with two payloads that do not decode between them.\<close>

definition starCalls :: "call list" where
  "starCalls =
     [AddBlock ''1001'' (Some (Block (demoEncode (StarData ''A:1000:starRegistry'' ''sa'' ''Sirius'')))),
      AddBlock ''1002'' (Some (Block ''null'')),
      AddBlock ''1003'' (Some (Block (demoEncode (StarData ''A:1002:starRegistry'' ''sb'' ''Vega'')))),
      AddBlock ''1004'' (Some (Block ''junk'')),
      AddBlock ''1005'' (Some (Block (demoEncode (StarData ''B:1004:starRegistry'' ''sc'' ''Rigel''))))]"

text \<open>
  A ledger of three records with the digests of \<open>demoHasher\<close>, in which the payload of
  the record at position 1 was overwritten (it was \<^verbatim>\<open>S\<close>).
\<close>

definition auditLedger :: blockchain where
  "auditLedger =
     \<lparr>chain = [\<lparr>hash = Some '':1000:G'', height = 0, body = ''G'', time = ''1000'',
                previousBlockHash = None\<rparr>,
               \<lparr>hash = Some ''i:1001:S'', height = 1, body = ''X'', time = ''1001'',
                previousBlockHash = Some '':1000:G''\<rparr>,
               \<lparr>hash = Some ''ii:1002:T'', height = 2, body = ''T'', time = ''1002'',
                previousBlockHash = Some ''i:1001:S''\<rparr>],
      chainHeight = 3\<rparr>"

section \<open>Appending: what \<^verbatim>\<open>_addBlock\<close> returns\<close>

lemma addBlock_None: "addBlock hasher validate now s None = (Inl RejectedWithBlock, s)"
  by (simp add: addBlock_def)

lemma addBlock_Some:
  "addBlock hasher validate now s (Some b) =
     (Inr (written hasher now s b),
      \<lparr>chain = chain s @ [written hasher now s b], chainHeight = int (length (chain s)) + 1\<rparr>)"
  by (simp add: addBlock_def written_def truthy_def appendBlockOntoTheChain_def
      appendGenesisBlock_def Let_def)

lemma addBlock_Inl_iff:
  "fst (addBlock hasher validate now s block) = Inl e \<longleftrightarrow> block = None \<and> e = RejectedWithBlock"
  by (cases block) (auto simp: addBlock_Some addBlock_None)

lemma written_nonempty:
  "chain s \<noteq> [] \<Longrightarrow>
   written hasher now s b =
     b\<lparr>time := now, hash := Some (hasher (b\<lparr>time := now\<rparr>)),
       height := height (last (chain s)) + 1,
       previousBlockHash := hash (last (chain s))\<rparr>"
  by (simp add: written_def Let_def)

lemma Blockchain_eq:
  "Blockchain hasher validate encode now =
     \<lparr>chain = [\<lparr>hash = Some (hasher \<lparr>hash = None, height = 0, body = encode GenesisData,
                                  time = now, previousBlockHash = None\<rparr>),
                height = 0, body = encode GenesisData, time = now, previousBlockHash = None\<rparr>],
      chainHeight = 1\<rparr>"
  by (simp add: Blockchain_def initializeChain_def addBlock_Some written_def Block_def)

lemma demoLedger_eq:
  "demoLedger =
     \<lparr>chain = [\<lparr>hash = Some '':1000:G'', height = 0, body = ''G'', time = ''1000'',
                previousBlockHash = None\<rparr>],
      chainHeight = 1\<rparr>"
  by (simp add: demoLedger_def Blockchain_eq demoHasher_def demoEncode_def)

text \<open>
  C10. \<^verbatim>\<open>_addBlock\<close> of a falsy argument rejects, with that argument as the reason, and
  leaves the ledger as it was; and whenever \<^verbatim>\<open>_addBlock\<close> rejects, the array of records
  and the height are the ones from before the call.
\<close>

theorem addBlock_atomic:
  "addBlock hasher validate now s None = (Inl RejectedWithBlock, s) \<and>
   (\<forall>block e. fst (addBlock hasher validate now s block) = Inl e \<longrightarrow>
      snd (addBlock hasher validate now s block) = s)"
  by (auto simp: addBlock_Inl_iff addBlock_None)

theorem addBlock_atomic_witness:
  "fst (addBlock demoHasher (Block_validate demoHasher) ''1001'' demoLedger None) = Inl RejectedWithBlock \<and>
   chain (snd (addBlock demoHasher (Block_validate demoHasher) ''1001'' demoLedger None)) = chain demoLedger \<and>
   chainHeight (snd (addBlock demoHasher (Block_validate demoHasher) ''1001'' demoLedger None)) = 1"
  using addBlock_atomic [of demoHasher "Block_validate demoHasher" "''1001''" demoLedger]
  by (simp add: demoLedger_eq)

text \<open>
  C6. The array that \<^verbatim>\<open>validateChain\<close> resolves with is truthy whatever it holds, so
  \<^verbatim>\<open>_addBlock\<close> never rejects with "Chain Invalid": on a chain that is not empty every
  block that is not falsy is pushed, also when the error log of the chain is not empty.
\<close>

theorem chain_invalid_unreachable:
  "truthy (validateChain validate s) \<and>
   fst (addBlock hasher validate now s block) \<noteq> Inl (RejectedWith ''Chain Invalid'') \<and>
   (chain s \<noteq> [] \<longrightarrow>
      addBlock hasher validate now s (Some b) =
        (Inr (written hasher now s b),
         \<lparr>chain = chain s @ [written hasher now s b],
          chainHeight = int (length (chain s)) + 1\<rparr>))"
  by (cases block) (simp_all add: addBlock_Some addBlock_None truthy_def)

theorem chain_invalid_unreachable_witness:
  "validateChain (Block_validate demoHasher) tamperedLedger =
     [BlockError (Some '':1000:G'') (''Block'' @ [CHR 0x27] @ ''s Body has been altered.'')] \<and>
   chain tamperedLedger \<noteq> [] \<and>
   fst (addBlock demoHasher (Block_validate demoHasher) ''1001'' tamperedLedger (Some (Block ''S''))) =
     Inr \<lparr>hash = Some '':1001:S'', height = 1, body = ''S'', time = ''1001'',
          previousBlockHash = Some '':1000:G''\<rparr> \<and>
   length (chain (snd (addBlock demoHasher (Block_validate demoHasher) ''1001'' tamperedLedger
      (Some (Block ''S''))))) = 2"
  using chain_invalid_unreachable [of "Block_validate demoHasher" tamperedLedger demoHasher
      "''1001''" "Some (Block ''S'')" "Block ''S''"]
  by (simp add: tamperedLedger_def validateChain_def validateCallback_def Block_validate_def
      demoHasher_def comparePreviousBlockHash_def written_def Block_def)

lemma forEachValidateEvents_eq:
  "forEachValidateEvents bs events = events @ map ValidateCalled bs"
  by (induction bs arbitrary: events) simp_all

lemma addBlockEvents_nonempty:
  "chain s \<noteq> [] \<Longrightarrow>
   addBlockEvents hasher validate now s (Some b) =
     map ValidateCalled (chain s) @ [Pushed (written hasher now s b)]"
  by (simp add: addBlockEvents_def validateChainEvents_def forEachValidateEvents_eq
      written_def truthy_def Let_def)

text \<open>
  C5. \<^verbatim>\<open>_addBlock\<close> does run the validation of the whole chain before it writes: on a
  chain that is not empty, an append that succeeds has called \<^verbatim>\<open>validate()\<close> on every
  record of the chain, in the order of the chain, and pushed after that. The record
  pushed is the one it resolves with; its position and previous digest are taken from the
  last record of the chain, its payload from the block submitted and its time from the
  clock.
\<close>

theorem addBlock_validates_before_writing:
  assumes "chain s \<noteq> []"
    and "fst (addBlock hasher validate now s (Some b)) = Inr b'"
  shows "addBlockEvents hasher validate now s (Some b) =
           map ValidateCalled (chain s) @ [Pushed b'] \<and>
         chain (snd (addBlock hasher validate now s (Some b))) = chain s @ [b'] \<and>
         height b' = height (last (chain s)) + 1 \<and>
         previousBlockHash b' = hash (last (chain s)) \<and>
         body b' = body b \<and> time b' = now"
proof -
  from assms(2) have b': "b' = written hasher now s b"
    by (simp add: addBlock_Some)
  show ?thesis
    using assms(1) unfolding b'
    by (simp add: addBlockEvents_nonempty addBlock_Some written_nonempty)
qed

theorem addBlock_validates_before_writing_witness:
  "chain forkedLedger \<noteq> [] \<and>
   fst (addBlock demoHasher (\<lambda>b. Inl ''boom'') ''1001'' forkedLedger (Some (Block ''S''))) =
     Inr \<lparr>hash = Some '':1001:S'', height = 1, body = ''S'', time = ''1001'',
          previousBlockHash = Some '':1000:G''\<rparr> \<and>
   addBlockEvents demoHasher (\<lambda>b. Inl ''boom'') ''1001'' forkedLedger (Some (Block ''S'')) =
     [ValidateCalled \<lparr>hash = Some ''bad'', height = 7, body = ''X'', time = ''5'',
                      previousBlockHash = Some ''zz''\<rparr>,
      ValidateCalled \<lparr>hash = Some '':1000:G'', height = 0, body = ''G'', time = ''1000'',
                      previousBlockHash = None\<rparr>,
      Pushed \<lparr>hash = Some '':1001:S'', height = 1, body = ''S'', time = ''1001'',
              previousBlockHash = Some '':1000:G''\<rparr>]"
proof -
  have a: "chain forkedLedger \<noteq> []" by (simp add: forkedLedger_def)
  have r: "fst (addBlock demoHasher (\<lambda>b. Inl ''boom'') ''1001'' forkedLedger (Some (Block ''S''))) =
     Inr \<lparr>hash = Some '':1001:S'', height = 1, body = ''S'', time = ''1001'',
          previousBlockHash = Some '':1000:G''\<rparr>"
    by (simp add: addBlock_Some written_def forkedLedger_def Block_def demoHasher_def)
  from addBlock_validates_before_writing [OF a r]
  show ?thesis using a r by (simp add: forkedLedger_def)
qed

text \<open>
  C5 as first stated (no validation of the chain before the write) fails on the ledger of
  the constructor: appending a block to it calls \<^verbatim>\<open>validate()\<close> on the genesis record,
  and pushes after that.
\<close>

theorem addBlock_runs_validation_counterexample:
  "addBlockEvents demoHasher (Block_validate demoHasher) ''1001'' demoLedger (Some (Block ''S'')) =
     [ValidateCalled \<lparr>hash = Some '':1000:G'', height = 0, body = ''G'', time = ''1000'',
                      previousBlockHash = None\<rparr>,
      Pushed \<lparr>hash = Some '':1001:S'', height = 1, body = ''S'', time = ''1001'',
              previousBlockHash = Some '':1000:G''\<rparr>]"
  by (simp add: addBlockEvents_def validateChainEvents_def truthy_def demoLedger_eq
      Block_def demoHasher_def)

text \<open>
  C1. On a chain that is not empty, \<^verbatim>\<open>_addBlock\<close> computes the digest of a new block
  before it assigns the position and the previous digest: the digest stored with the
  record is the hasher of the block at position 0 with the sentinel, while the record has
  the position after the tail's and the tail's digest. The stored digest is the digest of
  the record's own fields only where the hasher gives the same value on both.
\<close>

theorem addBlock_hashes_before_linking:
  assumes "chain s \<noteq> []"
  shows "\<exists>b'. addBlock hasher validate now s (Some (Block payload)) =
                (Inr b', \<lparr>chain = chain s @ [b'], chainHeight = int (length (chain s)) + 1\<rparr>) \<and>
           height b' = height (last (chain s)) + 1 \<and>
           previousBlockHash b' = hash (last (chain s)) \<and>
           time b' = now \<and> body b' = payload \<and>
           hash b' = Some (hasher \<lparr>hash = None, height = 0, body = payload, time = now,
                                    previousBlockHash = None\<rparr>) \<and>
           (digestCovers hasher b' \<longleftrightarrow>
              hasher \<lparr>hash = None, height = height (last (chain s)) + 1, body = payload,
                      time = now, previousBlockHash = hash (last (chain s))\<rparr> =
              hasher \<lparr>hash = None, height = 0, body = payload, time = now,
                      previousBlockHash = None\<rparr>)"
  using assms by (auto simp: addBlock_Some written_nonempty Block_def digestCovers_def)

theorem addBlock_hashes_before_linking_witness:
  "chain demoLedger \<noteq> [] \<and>
   fst (addBlock demoHasher (Block_validate demoHasher) ''1001'' demoLedger (Some (Block ''S''))) =
     Inr \<lparr>hash = Some '':1001:S'', height = 1, body = ''S'', time = ''1001'',
          previousBlockHash = Some '':1000:G''\<rparr> \<and>
   demoHasher \<lparr>hash = None, height = 1, body = ''S'', time = ''1001'',
          previousBlockHash = Some '':1000:G''\<rparr> = ''i:1001:S'' \<and>
   \<not> digestCovers demoHasher \<lparr>hash = Some '':1001:S'', height = 1, body = ''S'', time = ''1001'',
          previousBlockHash = Some '':1000:G''\<rparr>"
  using addBlock_hashes_before_linking [of demoLedger demoHasher "Block_validate demoHasher"
      "''1001''" "''S''"]
  by (auto simp: demoLedger_eq demoHasher_def digestCovers_def)

section \<open>The ledgers that the calls produce\<close>

lemma wellFormed_addBlock:
  assumes "wellFormed s"
  shows "wellFormed (snd (addBlock hasher validate now s block))"
proof (cases block)
  case None
  then show ?thesis using assms by (simp add: addBlock_None)
next
  case (Some b)
  let ?c = "chain s"
  let ?w = "written hasher now s b"
  from assms have ne: "?c \<noteq> []" by (simp add: wellFormed_def)
  have w: "height ?w = height (last ?c) + 1" "previousBlockHash ?w = hash (last ?c)"
    "hash ?w \<noteq> None"
    using ne by (simp_all add: written_nonempty)
  have lst: "last ?c = ?c ! (length ?c - 1)"
    using ne by (simp add: last_conv_nth)
  have "length ?c - 1 < length ?c" using ne by simp
  then have "height (?c ! (length ?c - 1)) = int (length ?c - 1)"
    using assms unfolding wellFormed_def by blast
  then have hl: "height (last ?c) + 1 = int (length ?c)"
    using ne lst by (cases ?c) simp_all
  have "wellFormed \<lparr>chain = ?c @ [?w], chainHeight = int (length ?c) + 1\<rparr>"
    unfolding wellFormed_def
  proof (intro conjI allI impI)
    show "chain \<lparr>chain = ?c @ [?w], chainHeight = int (length ?c) + 1\<rparr> \<noteq> []" by simp
    show "chainHeight \<lparr>chain = ?c @ [?w], chainHeight = int (length ?c) + 1\<rparr> =
      int (length (chain \<lparr>chain = ?c @ [?w], chainHeight = int (length ?c) + 1\<rparr>))" by simp
  next
    fix i assume "i < length (chain \<lparr>chain = ?c @ [?w], chainHeight = int (length ?c) + 1\<rparr>)"
    then have i: "i < length ?c \<or> i = length ?c" by auto
    show "height (chain \<lparr>chain = ?c @ [?w], chainHeight = int (length ?c) + 1\<rparr> ! i) = int i"
      using i assms w hl ne by (auto simp: nth_append wellFormed_def)
    show "hash (chain \<lparr>chain = ?c @ [?w], chainHeight = int (length ?c) + 1\<rparr> ! i) \<noteq> None"
      using i assms w by (auto simp: nth_append wellFormed_def)
  next
    show "previousBlockHash (chain \<lparr>chain = ?c @ [?w], chainHeight = int (length ?c) + 1\<rparr> ! 0) = None"
      using assms ne by (simp add: nth_append wellFormed_def)
  next
    fix i assume "0 < i \<and> i < length (chain \<lparr>chain = ?c @ [?w], chainHeight = int (length ?c) + 1\<rparr>)"
    then have i: "0 < i" "i < length ?c \<or> i = length ?c" by auto
    show "previousBlockHash (chain \<lparr>chain = ?c @ [?w], chainHeight = int (length ?c) + 1\<rparr> ! i) =
          hash (chain \<lparr>chain = ?c @ [?w], chainHeight = int (length ?c) + 1\<rparr> ! (i - 1))"
      using i assms w lst ne by (auto simp: nth_append wellFormed_def)
  qed
  then show ?thesis using Some by (simp add: addBlock_Some)
qed

lemma wellFormed_initializeChain:
  "wellFormed s \<Longrightarrow> initializeChain hasher validate encode now s = s"
  by (simp add: initializeChain_def wellFormed_def)

lemma wellFormed_Blockchain: "wellFormed (Blockchain hasher validate encode now)"
  by (auto simp: Blockchain_eq wellFormed_def)

lemma wellFormed_perform:
  "wellFormed s \<Longrightarrow> wellFormed (perform hasher validate encode s c)"
  by (cases c) (simp_all add: wellFormed_addBlock wellFormed_initializeChain)

lemma wellFormed_run:
  "wellFormed s \<Longrightarrow> wellFormed (run hasher validate encode s calls)"
  unfolding run_def
  by (induction calls arbitrary: s) (simp_all add: wellFormed_perform)

lemma run_demoCalls:
  "run demoHasher (Block_validate demoHasher) demoEncode demoLedger demoCalls =
     \<lparr>chain = [\<lparr>hash = Some '':1000:G'', height = 0, body = ''G'', time = ''1000'',
                previousBlockHash = None\<rparr>,
               \<lparr>hash = Some '':1001:S'', height = 1, body = ''S'', time = ''1001'',
                previousBlockHash = Some '':1000:G''\<rparr>,
               \<lparr>hash = Some '':1004:T'', height = 2, body = ''T'', time = ''1004'',
                previousBlockHash = Some '':1001:S''\<rparr>],
      chainHeight = 3\<rparr>"
  by (simp add: run_def demoCalls_def demoLedger_eq addBlock_Some addBlock_None written_def
      Block_def demoHasher_def initializeChain_def)

text \<open>
  C2. In the ledger that the constructor and any sequence of calls of \<^verbatim>\<open>_addBlock\<close> and
  \<^verbatim>\<open>initializeChain\<close> produce, the first record has the sentinel \<^verbatim>\<open>null\<close> as previous
  digest, and every record at an index \<open>i > 0\<close> has as previous digest the digest of the
  record at \<open>i - 1\<close>.
\<close>

theorem run_linkage:
  "chain (run hasher validate encode (Blockchain hasher validate encode now) calls) \<noteq> [] \<and>
   previousBlockHash (chain (run hasher validate encode (Blockchain hasher validate encode now) calls) ! 0)
     = None \<and>
   (\<forall>i. 0 < i \<and> i < length (chain (run hasher validate encode (Blockchain hasher validate encode now) calls))
      \<longrightarrow> previousBlockHash (chain (run hasher validate encode (Blockchain hasher validate encode now) calls) ! i)
           = hash (chain (run hasher validate encode (Blockchain hasher validate encode now) calls) ! (i - 1)))"
  using wellFormed_run [OF wellFormed_Blockchain, of hasher validate encode hasher validate encode now calls]
  unfolding wellFormed_def by blast

theorem run_linkage_witness:
  "length (chain (run demoHasher (Block_validate demoHasher) demoEncode
      (Blockchain demoHasher (Block_validate demoHasher) demoEncode ''1000'') demoCalls)) = 3 \<and>
   previousBlockHash (chain (run demoHasher (Block_validate demoHasher) demoEncode
      (Blockchain demoHasher (Block_validate demoHasher) demoEncode ''1000'') demoCalls) ! 0) = None \<and>
   previousBlockHash (chain (run demoHasher (Block_validate demoHasher) demoEncode
      (Blockchain demoHasher (Block_validate demoHasher) demoEncode ''1000'') demoCalls) ! 1) =
     hash (chain (run demoHasher (Block_validate demoHasher) demoEncode
      (Blockchain demoHasher (Block_validate demoHasher) demoEncode ''1000'') demoCalls) ! 0) \<and>
   previousBlockHash (chain (run demoHasher (Block_validate demoHasher) demoEncode
      (Blockchain demoHasher (Block_validate demoHasher) demoEncode ''1000'') demoCalls) ! 2) =
     Some '':1001:S''"
  using run_linkage [of demoHasher "Block_validate demoHasher" demoEncode "''1000''" demoCalls]
    run_demoCalls
  unfolding demoLedger_def [symmetric]
  by simp

lemma one_genesis:
  assumes "\<forall>i. i < length c \<longrightarrow> height (c ! i) = int i"
  shows "filter (\<lambda>b. height b = 0) c = take 1 c"
proof (cases c)
  case Nil
  then show ?thesis by simp
next
  case (Cons x xs)
  have "0 < length c" using Cons by simp
  then have "height (c ! 0) = int 0" using assms by blast
  then have x: "height x = 0" using Cons by simp
  have "height y \<noteq> 0" if "y \<in> set xs" for y
  proof -
    from that obtain j where j: "j < length xs" "xs ! j = y" by (auto simp: in_set_conv_nth)
    then have "Suc j < length c" using Cons by simp
    then have "height (c ! Suc j) = int (Suc j)" using assms by blast
    then show ?thesis using j Cons by simp
  qed
  then have "filter (\<lambda>b. height b = 0) xs = []" by (simp add: filter_empty_conv)
  then show ?thesis using Cons x by simp
qed

lemma one_sentinel:
  assumes "wellFormed s"
  shows "filter (\<lambda>b. previousBlockHash b = None) (chain s) = take 1 (chain s)"
proof (cases "chain s")
  case Nil
  then show ?thesis by simp
next
  case (Cons x xs)
  have x: "previousBlockHash x = None" using assms Cons by (simp add: wellFormed_def)
  have "previousBlockHash y \<noteq> None" if "y \<in> set xs" for y
  proof -
    from that obtain j where j: "j < length xs" "xs ! j = y" by (auto simp: in_set_conv_nth)
    then have lt: "0 < Suc j \<and> Suc j < length (chain s)" and lt': "j < length (chain s)"
      using Cons by simp_all
    from lt have "previousBlockHash (chain s ! Suc j) = hash (chain s ! (Suc j - 1))"
      using assms unfolding wellFormed_def by blast
    moreover from lt' have "hash (chain s ! j) \<noteq> None"
      using assms unfolding wellFormed_def by blast
    ultimately show ?thesis using j Cons by simp
  qed
  then have "filter (\<lambda>b. previousBlockHash b = None) xs = []" by (simp add: filter_empty_conv)
  then show ?thesis using Cons x by simp
qed

lemma run_InitializeChain:
  "wellFormed s \<Longrightarrow> run hasher validate encode s (map InitializeChain nows) = s"
  unfolding run_def
  by (induction nows arbitrary: s) (simp_all add: wellFormed_initializeChain)

text \<open>
  C9. \<^verbatim>\<open>initializeChain\<close>, called any number of times after the constructor, leaves the
  ledger of the constructor as it is. In every ledger that calls produce, a further
  \<^verbatim>\<open>initializeChain\<close> changes nothing, the first record has position 0 and the sentinel as
  previous digest, the height is at least 1, and exactly one record has position 0 and
  exactly one has the sentinel.
\<close>

theorem initializeChain_idempotent:
  "run hasher validate encode (Blockchain hasher validate encode now) (map InitializeChain nows) =
     Blockchain hasher validate encode now \<and>
   (let s = run hasher validate encode (Blockchain hasher validate encode now) calls
    in initializeChain hasher validate encode now' s = s \<and>
       height (chain s ! 0) = 0 \<and>
       previousBlockHash (chain s ! 0) = None \<and>
       chainHeight s \<ge> 1 \<and>
       length (filter (\<lambda>b. height b = 0) (chain s)) = 1 \<and>
       length (filter (\<lambda>b. previousBlockHash b = None) (chain s)) = 1)"
proof -
  define s where "s = run hasher validate encode (Blockchain hasher validate encode now) calls"
  have wf: "wellFormed s"
    unfolding s_def by (rule wellFormed_run [OF wellFormed_Blockchain])
  then have ne: "chain s \<noteq> []"
    and h: "\<forall>i. i < length (chain s) \<longrightarrow> height (chain s ! i) = int i"
    and ch: "chainHeight s = int (length (chain s))"
    and p0: "previousBlockHash (chain s ! 0) = None"
    unfolding wellFormed_def by blast+
  from ne have len: "0 < length (chain s)" by simp
  have h0: "height (chain s ! 0) = 0" using h len by force
  have "length (take 1 (chain s)) = 1" using len by (cases "chain s") simp_all
  then have cnt: "length (filter (\<lambda>b. height b = 0) (chain s)) = 1"
    "length (filter (\<lambda>b. previousBlockHash b = None) (chain s)) = 1"
    using one_genesis [OF h] one_sentinel [OF wf] by simp_all
  have ge: "chainHeight s \<ge> 1" using ch ne by (cases "chain s") simp_all
  have idem: "initializeChain hasher validate encode now' s = s"
    by (rule wellFormed_initializeChain [OF wf])
  have "run hasher validate encode (Blockchain hasher validate encode now) (map InitializeChain nows) =
     Blockchain hasher validate encode now"
    by (rule run_InitializeChain [OF wellFormed_Blockchain])
  moreover have "initializeChain hasher validate encode now' s = s \<and>
       height (chain s ! 0) = 0 \<and>
       previousBlockHash (chain s ! 0) = None \<and>
       chainHeight s \<ge> 1 \<and>
       length (filter (\<lambda>b. height b = 0) (chain s)) = 1 \<and>
       length (filter (\<lambda>b. previousBlockHash b = None) (chain s)) = 1"
    using idem h0 p0 ge cnt by blast
  ultimately show ?thesis unfolding Let_def s_def by blast
qed

theorem initializeChain_idempotent_witness:
  "run demoHasher (Block_validate demoHasher) demoEncode demoLedger
      [InitializeChain ''1001'', InitializeChain ''1002''] = demoLedger \<and>
   length (chain demoLedger) = 1 \<and>
   initializeChain demoHasher (Block_validate demoHasher) demoEncode ''1005''
      (run demoHasher (Block_validate demoHasher) demoEncode demoLedger demoCalls) =
      run demoHasher (Block_validate demoHasher) demoEncode demoLedger demoCalls \<and>
   length (filter (\<lambda>b. height b = 0)
      (chain (run demoHasher (Block_validate demoHasher) demoEncode demoLedger demoCalls))) = 1"
proof -
  have "length (chain demoLedger) = 1" by (simp add: demoLedger_eq)
  then show ?thesis
    using initializeChain_idempotent [of demoHasher "Block_validate demoHasher" demoEncode "''1000''"
      "[''1001'', ''1002'']" demoCalls "''1005''"]
    unfolding demoLedger_def [symmetric] Let_def
    by simp
qed


section \<open>Queries\<close>

lemma getBlockByHash_absent:
  "Some h \<notin> hash ` set (chain s) \<Longrightarrow> getBlockByHash s h = Inl ''Block Not Found.''"
proof -
  assume "Some h \<notin> hash ` set (chain s)"
  then have "\<forall>b \<in> set (chain s). hash b \<noteq> Some h"
    by (metis imageI)
  then have "find (\<lambda>b. hash b = Some h) (chain s) = None"
    by (simp add: find_None_iff)
  then show ?thesis by (simp add: getBlockByHash_def)
qed

lemma getBlockByHeight_absent:
  "p \<notin> height ` set (chain s) \<Longrightarrow> getBlockByHeight s p = Inr None"
proof -
  assume "p \<notin> height ` set (chain s)"
  then have "filter (\<lambda>b. height b = p) (chain s) = []"
    by (auto simp: filter_empty_conv)
  then show ?thesis by (simp add: getBlockByHeight_def at_def)
qed

lemma wellFormed_heights:
  assumes "wellFormed s" and "p < 0 \<or> int (length (chain s)) \<le> p"
  shows "p \<notin> height ` set (chain s)"
proof
  assume "p \<in> height ` set (chain s)"
  then obtain i where i: "i < length (chain s)" "height (chain s ! i) = p"
    by (auto simp: in_set_conv_nth)
  then have "height (chain s ! i) = int i" using assms(1) unfolding wellFormed_def by blast
  then show False using i assms(2) by auto
qed

text \<open>
  C8. For a digest that no record of the ledger has, \<^verbatim>\<open>getBlockByHash\<close> rejects with
  "Block Not Found.": an error, not an absent result. \<^verbatim>\<open>getBlockByHeight\<close> resolves with
  \<^verbatim>\<open>null\<close> for a position that no record has, and in a ledger that calls produced every
  position below 0 or from the length on is such a position.
\<close>

theorem queries_absent:
  "(Some h \<notin> hash ` set (chain s) \<longrightarrow> getBlockByHash s h = Inl ''Block Not Found.'') \<and>
   (p \<notin> height ` set (chain s) \<longrightarrow> getBlockByHeight s p = Inr None) \<and>
   (q < 0 \<or> int (length (chain (run hasher validate encode (Blockchain hasher validate encode now) calls))) \<le> q
      \<longrightarrow> getBlockByHeight (run hasher validate encode (Blockchain hasher validate encode now) calls) q
            = Inr None)"
  using getBlockByHash_absent getBlockByHeight_absent
    wellFormed_heights [OF wellFormed_run [OF wellFormed_Blockchain]]
  by blast

theorem queries_absent_witness:
  "Some ''ffff'' \<notin> hash ` set (chain tamperedLedger) \<and>
   getBlockByHash tamperedLedger ''ffff'' = Inl ''Block Not Found.'' \<and>
   7 \<notin> height ` set (chain tamperedLedger) \<and>
   getBlockByHeight tamperedLedger 7 = Inr None \<and>
   length (chain (run demoHasher (Block_validate demoHasher) demoEncode demoLedger demoCalls)) = 3 \<and>
   getBlockByHeight (run demoHasher (Block_validate demoHasher) demoEncode demoLedger demoCalls) 3
     = Inr None"
proof -
  have a: "Some ''ffff'' \<notin> hash ` set (chain tamperedLedger)"
    and b: "7 \<notin> height ` set (chain tamperedLedger)"
    by (simp_all add: tamperedLedger_def)
  have c: "length (chain (run demoHasher (Block_validate demoHasher) demoEncode demoLedger demoCalls)) = 3"
    by (simp add: run_demoCalls)
  show ?thesis
    using a b c queries_absent [of "''ffff''" tamperedLedger 7 3 demoHasher
        "Block_validate demoHasher" demoEncode "''1000''" demoCalls]
    unfolding demoLedger_def [symmetric]
    by simp
qed

text \<open>
  The by-digest query of C8 as first stated (absence, not an error) fails on the ledger of
  the constructor: no record has the digest \<^verbatim>\<open>ffff\<close>, and the query rejects.
\<close>

theorem getBlockByHash_absent_counterexample:
  "Some ''ffff'' \<notin> hash ` set (chain demoLedger) \<and>
   getBlockByHash demoLedger ''ffff'' = Inl ''Block Not Found.''"
  by (simp add: demoLedger_eq getBlockByHash_def)

lemma split_head: "at (split c str) 0 = Some (takeWhile (\<lambda>x. x \<noteq> c) str)"
proof (induction str)
  case Nil
  then show ?case by (simp add: at_def)
next
  case (Cons x xs)
  then show ?case by (cases "split c xs") (auto simp: at_def)
qed

lemma starsCallback_eq:
  "starsCallback getBData address b =
     (if decodedOwner getBData b = Some address
      then [\<lparr>owner = address, star = decodedStar getBData b\<rparr>] else [])"
  by (auto simp: starsCallback_def decodedOwner_def decodedStar_def split_head
      split: sum.splits bdata.splits option.splits)

lemma forEachStars_eq:
  "forEachStars getBData address bs stars =
     stars @ map (\<lambda>b. \<lparr>owner = address, star = decodedStar getBData b\<rparr>)
               (filter (\<lambda>b. decodedOwner getBData b = Some address) bs)"
  by (induction bs arbitrary: stars) (simp_all add: starsCallback_eq)

text \<open>
  C7. On a ledger that is not empty \<^verbatim>\<open>getStarsByWalletAddress\<close> resolves; its array holds
  one entry, with the address and the decoded star, for each record whose decoded message
  starts with the address, in the order of the chain, and nothing else. A record whose
  payload does not decode to an object with a message (the genesis record among them) is
  left out and does not fail the query.
\<close>

theorem getStarsByWalletAddress_exact:
  "getStarsByWalletAddress getBData s address =
     (if chain s = [] then Inl ''Failed.''
      else Inr (map (\<lambda>b. \<lparr>owner = address, star = decodedStar getBData b\<rparr>)
                  (filter (\<lambda>b. decodedOwner getBData b = Some address) (chain s))))"
  by (simp add: getStarsByWalletAddress_def forEachStars_eq)

lemma run_starCalls:
  "chain (run demoHasher (Block_validate demoHasher) demoEncode demoLedger starCalls) =
     [\<lparr>hash = Some '':1000:G'', height = 0, body = ''G'', time = ''1000'',
       previousBlockHash = None\<rparr>,
      \<lparr>hash = Some '':1001:A:1000:starRegistry|Sirius'', height = 1,
       body = ''A:1000:starRegistry|Sirius'', time = ''1001'',
       previousBlockHash = Some '':1000:G''\<rparr>,
      \<lparr>hash = Some '':1002:null'', height = 2, body = ''null'', time = ''1002'',
       previousBlockHash = Some '':1001:A:1000:starRegistry|Sirius''\<rparr>,
      \<lparr>hash = Some '':1003:A:1002:starRegistry|Vega'', height = 3,
       body = ''A:1002:starRegistry|Vega'', time = ''1003'',
       previousBlockHash = Some '':1002:null''\<rparr>,
      \<lparr>hash = Some '':1004:junk'', height = 4, body = ''junk'', time = ''1004'',
       previousBlockHash = Some '':1003:A:1002:starRegistry|Vega''\<rparr>,
      \<lparr>hash = Some '':1005:B:1004:starRegistry|Rigel'', height = 5,
       body = ''B:1004:starRegistry|Rigel'', time = ''1005'',
       previousBlockHash = Some '':1004:junk''\<rparr>]"
  by (simp add: run_def starCalls_def demoLedger_eq addBlock_Some written_def
      Block_def demoHasher_def demoEncode_def)

theorem getStarsByWalletAddress_exact_witness:
  "getStarsByWalletAddress demoGetBData
      (run demoHasher (Block_validate demoHasher) demoEncode demoLedger starCalls) ''A'' =
     Inr [\<lparr>owner = ''A'', star = Some ''Sirius''\<rparr>, \<lparr>owner = ''A'', star = Some ''Vega''\<rparr>] \<and>
   getStarsByWalletAddress demoGetBData
      (run demoHasher (Block_validate demoHasher) demoEncode demoLedger starCalls) ''B'' =
     Inr [\<lparr>owner = ''B'', star = Some ''Rigel''\<rparr>]"
  using getStarsByWalletAddress_exact [of demoGetBData
      "run demoHasher (Block_validate demoHasher) demoEncode demoLedger starCalls" "''A''"]
    getStarsByWalletAddress_exact [of demoGetBData
      "run demoHasher (Block_validate demoHasher) demoEncode demoLedger starCalls" "''B''"]
  by (simp add: run_starCalls decodedOwner_def decodedStar_def demoGetBData_def)

section \<open>Validation\<close>

lemma forEachValidate_pending:
  "pending (forEachValidate validate bs v) = pending v @ concat (map (validateCallback validate) bs)"
  by (induction bs arbitrary: v) simp_all

lemma forEachValidate_errorLog:
  "errorLog (forEachValidate validate bs v) = errorLog v @ linkLog (previousHash v) bs"
  by (induction bs arbitrary: v) (simp_all add: comparePreviousBlockHash_def)

lemma validateChain_eq:
  "chain s \<noteq> [] \<Longrightarrow>
   validateChain validate s =
     linkLog None (chain s) @ concat (map (validateCallback validate) (chain s))"
  by (simp add: validateChain_def Let_def forEachValidate_pending forEachValidate_errorLog)

lemma linkLog_member:
  assumes "i < length bs"
    and "previousBlockHash (bs ! i) \<noteq> (if i = 0 then p else hash (bs ! (i - 1)))"
  shows "hashNotMatching (bs ! i) (if i = 0 then p else hash (bs ! (i - 1))) \<in> set (linkLog p bs)"
  using assms
proof (induction bs arbitrary: p i)
  case Nil
  then show ?case by simp
next
  case (Cons b bs)
  show ?case
  proof (cases i)
    case 0
    then show ?thesis using Cons.prems by simp
  next
    case (Suc j)
    have j: "j < length bs" using Cons.prems(1) Suc by simp
    have eq: "(if i = 0 then p else hash ((b # bs) ! (i - 1))) =
              (if j = 0 then hash b else hash (bs ! (j - 1)))"
      using Suc by (cases j) simp_all
    have "previousBlockHash (bs ! j) \<noteq> (if j = 0 then hash b else hash (bs ! (j - 1)))"
      using Cons.prems(2) eq Suc by simp
    from Cons.IH [OF j this] show ?thesis
      using eq Suc by simp
  qed
qed

lemma callback_member:
  "b \<in> set bs \<Longrightarrow> set (validateCallback validate b) \<subseteq> set (concat (map (validateCallback validate) bs))"
  by auto

text \<open>
  C4. The error log of \<^verbatim>\<open>validateChain\<close> holds the findings of every record of the
  chain, whatever the records before it gave: an entry "Block's Body has been altered."
  with the record's digest when \<^verbatim>\<open>validate()\<close> resolves with false for it (its recomputed
  digest is not the stored one), an entry for a \<^verbatim>\<open>validate()\<close> that rejects, and an entry
  "Hash Not Matching" when its previous digest is not the digest of the record before.
\<close>

theorem validateChain_reports_every_record:
  assumes "i < length (chain s)"
  shows "(validate (chain s ! i) = Inr False \<longrightarrow>
            BlockError (hash (chain s ! i)) (''Block'' @ [CHR 0x27] @ ''s Body has been altered.'')
              \<in> set (validateChain validate s)) \<and>
         (\<forall>err. validate (chain s ! i) = Inl err \<longrightarrow>
            BlockError (hash (chain s ! i)) (''Block Validation Failed ('' @ err @ '')'')
              \<in> set (validateChain validate s)) \<and>
         (previousBlockHash (chain s ! i) \<noteq> (if i = 0 then None else hash (chain s ! (i - 1))) \<longrightarrow>
            hashNotMatching (chain s ! i) (if i = 0 then None else hash (chain s ! (i - 1)))
              \<in> set (validateChain validate s))"
proof -
  from assms have ne: "chain s \<noteq> []" by auto
  from assms have mem: "chain s ! i \<in> set (chain s)" by simp
  have cb: "set (validateCallback validate (chain s ! i)) \<subseteq> set (validateChain validate s)"
    using callback_member [OF mem, of validate] by (auto simp: validateChain_eq [OF ne])
  have lk: "previousBlockHash (chain s ! i) \<noteq> (if i = 0 then None else hash (chain s ! (i - 1))) \<Longrightarrow>
            hashNotMatching (chain s ! i) (if i = 0 then None else hash (chain s ! (i - 1)))
              \<in> set (validateChain validate s)"
    using linkLog_member [OF assms, of None] by (simp add: validateChain_eq [OF ne])
  show ?thesis
  proof (intro conjI impI allI)
    assume "validate (chain s ! i) = Inr False"
    then show "BlockError (hash (chain s ! i)) (''Block'' @ [CHR 0x27] @ ''s Body has been altered.'')
              \<in> set (validateChain validate s)"
      using cb by (simp add: validateCallback_def)
  next
    fix err assume "validate (chain s ! i) = Inl err"
    then show "BlockError (hash (chain s ! i)) (''Block Validation Failed ('' @ err @ '')'')
              \<in> set (validateChain validate s)"
      using cb by (simp add: validateCallback_def)
  next
    assume "previousBlockHash (chain s ! i) \<noteq> (if i = 0 then None else hash (chain s ! (i - 1)))"
    then show "hashNotMatching (chain s ! i) (if i = 0 then None else hash (chain s ! (i - 1)))
              \<in> set (validateChain validate s)"
      by (rule lk)
  qed
qed

lemma validateChain_auditLedger:
  "validateChain (Block_validate demoHasher) auditLedger =
     [BlockError (Some ''i:1001:S'') (''Block'' @ [CHR 0x27] @ ''s Body has been altered.'')]"
  by (simp add: auditLedger_def validateChain_def validateCallback_def Block_validate_def
      demoHasher_def comparePreviousBlockHash_def eval_nat_numeral)

theorem validateChain_reports_every_record_witness:
  "(1::nat) < length (chain auditLedger) \<and>
   Block_validate demoHasher (chain auditLedger ! 1) = Inr False \<and>
   BlockError (Some ''i:1001:S'') (''Block'' @ [CHR 0x27] @ ''s Body has been altered.'')
     \<in> set (validateChain (Block_validate demoHasher) auditLedger) \<and>
   length (validateChain (Block_validate demoHasher) auditLedger) = 1"
proof -
  have a: "(1::nat) < length (chain auditLedger)" by (simp add: auditLedger_def)
  have b: "Block_validate demoHasher (chain auditLedger ! 1) = Inr False"
    by (simp add: auditLedger_def Block_validate_def demoHasher_def)
  have c: "hash (chain auditLedger ! 1) = Some ''i:1001:S''" by (simp add: auditLedger_def)
  show ?thesis
    using a b c validateChain_reports_every_record [OF a, of "Block_validate demoHasher"]
      validateChain_auditLedger
    by simp
qed

section \<open>The freshness window of \<^verbatim>\<open>submitStar\<close>\<close>

lemma getMinutes_window:
  assumes "0 \<le> e" and "e < 300000"
  shows "less' (getMinutes 0 (Some e)) 5"
proof -
  have "e div 60000 < 5" using assms by (simp add: div_less_iff_less_mult)
  moreover have "0 \<le> e div 60000" using assms by simp
  ultimately have "(e div 60000) mod 60 < 5" by simp
  then show ?thesis using assms by (simp add: getMinutes_def less'_def)
qed

text \<open>
  C3. \<^verbatim>\<open>submitStar\<close> hands the difference of the two times, which is in seconds, to
  \<^verbatim>\<open>new Date\<close>, which takes milliseconds, and reads the minute of the hour of that date.
  Where local time is UTC, a challenge with a valid signature is accepted whenever it is
  less than 300000 seconds old: at 299 seconds, and at 301 seconds and beyond as well.
\<close>

theorem submitStar_accepts_stale_challenge:
  assumes "parseInt (at (split CHR '':'' message) 1) = Some messageTime"
    and "parseInt (Some now) = Some currentTime"
    and "0 \<le> currentTime - messageTime" and "currentTime - messageTime < 300000"
    and "verify message address signature"
  shows "\<exists>b'. submitStar hasher validate encode verify 0 now now' s address message signature star' =
           (Inr b', \<lparr>chain = chain s @ [b'], chainHeight = int (length (chain s)) + 1\<rparr>)"
  using assms getMinutes_window [of "currentTime - messageTime"]
  by (simp add: submitStar_def minus'_def addBlock_Some Let_def)

theorem submitStar_accepts_stale_challenge_witness:
  "parseInt (at (split CHR '':'' (requestMessageOwnershipVerification ''A'' ''1000'')) 1) = Some 1000 \<and>
   parseInt (Some ''1301'') = Some 1301 \<and>
   fst (submitStar demoHasher (Block_validate demoHasher) demoEncode (\<lambda>m a sg. True) 0 ''1301'' ''1301''
      demoLedger ''A'' (requestMessageOwnershipVerification ''A'' ''1000'') ''sa'' ''Sirius'') =
     Inr \<lparr>hash = Some '':1301:A:1000:starRegistry|Sirius'', height = 1,
          body = ''A:1000:starRegistry|Sirius'', time = ''1301'',
          previousBlockHash = Some '':1000:G''\<rparr>"
proof -
  have m: "requestMessageOwnershipVerification ''A'' ''1000'' = ''A:1000:starRegistry''"
    by (simp add: requestMessageOwnershipVerification_def)
  have a: "parseInt (at (split CHR '':'' ''A:1000:starRegistry'') 1) = Some 1000"
    by (simp add: at_def parseInt_def isWhiteSpace_def isDigit_def digitValue_def digitsValue_def)
  have b: "parseInt (Some ''1301'') = Some 1301"
    by (simp add: parseInt_def isWhiteSpace_def isDigit_def digitValue_def digitsValue_def)
  have c: "(0::int) \<le> 1301 - 1000" "(1301::int) - 1000 < 300000" by simp_all
  from submitStar_accepts_stale_challenge [of "''A:1000:starRegistry''" 1000 "''1301''" 1301
      "\<lambda>m a sg. True" "''A''" "''sa''" demoHasher "Block_validate demoHasher" demoEncode "''1301''"
      demoLedger "''Sirius''", OF a b c]
  obtain b' where b': "submitStar demoHasher (Block_validate demoHasher) demoEncode (\<lambda>m a sg. True) 0
      ''1301'' ''1301'' demoLedger ''A'' ''A:1000:starRegistry'' ''sa'' ''Sirius'' =
      (Inr b', \<lparr>chain = chain demoLedger @ [b'], chainHeight = int (length (chain demoLedger)) + 1\<rparr>)"
    by auto
  have "submitStar demoHasher (Block_validate demoHasher) demoEncode (\<lambda>m a sg. True) 0
      ''1301'' ''1301'' demoLedger ''A'' ''A:1000:starRegistry'' ''sa'' ''Sirius'' =
      (Inr (written demoHasher ''1301'' demoLedger
              (Block (demoEncode (StarData ''A:1000:starRegistry'' ''sa'' ''Sirius'')))),
       \<lparr>chain = chain demoLedger @ [written demoHasher ''1301'' demoLedger
              (Block (demoEncode (StarData ''A:1000:starRegistry'' ''sa'' ''Sirius'')))],
        chainHeight = int (length (chain demoLedger)) + 1\<rparr>)"
    using b' by (simp add: submitStar_def addBlock_Some Let_def split: if_splits)
  then show ?thesis
    using a b m
    by (simp add: demoLedger_eq written_def Block_def demoEncode_def demoHasher_def)
qed


end
